theory Spec2Isabelle
  imports Main
begin

section \<open>Exceptions and the list primitives of the two modules\<close>

text \<open>
  Both modules signal failure by raising. An exception is modelled by its class and the
  values interpolated into its message; a function that can raise returns \<open>exn + 'a\<close>
  with \<open>Inl\<close> for the raise.

  The three \<open>CardConnectionException\<close>s of \<open>pcsc.py\<close> differ by message only:
  \<^item> \<open>Failed_to_transmit h m\<close>: "Failed to transmit with protocol {str(header)}." followed
    by \<open>SCardGetErrorMessage(hresult)\<close> (line 51);
  \<^item> \<open>Invalid_response_length n\<close>: "Invalid response length {n} from card. Expected at
    least 2 bytes for SW1 and SW2." (line 56);
  \<^item> \<open>Unexpected_SW1 b\<close>: "Unexpected SW1 {b:02X} in response from card. Expected 0x91."
    (line 60).
\<close>

datatype conn_msg =
    Failed_to_transmit string string
  | Invalid_response_length nat
  | Unexpected_SW1 int

text \<open>
  \<^item> \<open>IndexError\<close>: a list subscript out of range;
  \<^item> \<open>ValueError_enum cls v\<close>: calling an \<open>Enum\<close> class on a value that no member has
    ("{v} is not a valid {cls}");
  \<^item> \<open>ValueError_bytes\<close>: \<open>bytes(xs)\<close> on a list with an element outside \<open>range(0, 256)\<close>;
  \<^item> \<open>struct_error n\<close>: \<open>struct.unpack("<I", b)\<close> on a buffer of \<open>n \<noteq> 4\<close> bytes;
  \<^item> \<open>NotImplementedError v\<close>: "Filetype {v:02X} is currently not supported."
    (\<open>file_settings.py\<close>, line 101);
  \<^item> \<open>DESFireException c\<close>: "Tried to transit to non-open connection: {c}"
    (\<open>pcsc.py\<close>, line 40);
  \<^item> \<open>Other_exception cls\<close>: an exception of any other class, which only a function
    taken as a parameter can raise.
\<close>

datatype exn =
    IndexError
  | ValueError_enum string int
  | ValueError_bytes
  | struct_error nat
  | NotImplementedError int
  | DESFireException string
  | CardConnectionException conn_msg
  | Other_exception string

text \<open>Python's \<open>xs[i]\<close>: a negative index counts from the end, out of range raises.\<close>

definition py_getitem :: "'a list \<Rightarrow> int \<Rightarrow> exn + 'a" where
  "py_getitem xs i =
     (let n = int (length xs); j = (if i < 0 then i + n else i)
      in if 0 \<le> j \<and> j < n then Inr (xs ! nat j) else Inl IndexError)"

text \<open>
  Python's \<open>xs[a:b]\<close> (step 1): a missing bound is the end of the list on its side, a
  negative bound counts from the end, and both are clamped into \<open>0..len(xs)\<close>. A slice
  never raises.
\<close>

definition py_bound :: "nat \<Rightarrow> int \<Rightarrow> nat" where
  "py_bound n i = (let j = (if i < 0 then i + int n else i)
                   in if j < 0 then 0 else if int n < j then n else nat j)"

definition py_slice :: "'a list \<Rightarrow> int option \<Rightarrow> int option \<Rightarrow> 'a list" where
  "py_slice xs a b =
     (let n = length xs;
          lo = (case a of None \<Rightarrow> 0 | Some i \<Rightarrow> py_bound n i);
          hi = (case b of None \<Rightarrow> n | Some i \<Rightarrow> py_bound n i)
      in take (hi - lo) (drop lo xs))"

section \<open>\<open>devices/pcsc.py\<close>: the command transceiver\<close>

text \<open>
  The pyscard connection object: \<open>hcard\<close> is the card handle (\<open>None\<close> before
  \<open>connect()\<close>), \<open>getProtocol\<close> the value its method of that name returns, and
  \<open>conn_str\<close> the text the f-string of line 40 prints for the object.
\<close>

record 'pr card_connection =
  hcard :: "int option"
  getProtocol :: 'pr
  conn_str :: string

text \<open>
  The functions imported from pyscard (lines 3 to 5), taken as parameters:
  \<open>translateprotocolheader\<close>, the raw transmit primitive \<open>SCardTransmit\<close>, which returns a
  result code and the response bytes, \<open>SCardGetErrorMessage\<close>, and \<open>str\<close> on a
  protocol header.
\<close>

record ('pr, 'hd) pyscard =
  translateprotocolheader :: "'pr \<Rightarrow> 'hd"
  SCardTransmit :: "int option \<Rightarrow> 'hd \<Rightarrow> int list \<Rightarrow> int \<times> int list"
  SCardGetErrorMessage :: "int \<Rightarrow> string"
  str_header :: "'hd \<Rightarrow> string"

text \<open>Python's truth value of \<open>hcard\<close>: \<open>None\<close> and \<open>0\<close> are false.\<close>

definition truthy :: "int option \<Rightarrow> bool" where
  "truthy h = (case h of None \<Rightarrow> False | Some v \<Rightarrow> v \<noteq> 0)"

text \<open>
  \<open>PCSCDevice.transceive\<close> (lines 29 to 65). The result is the list of calls made to
  \<open>SCardTransmit\<close>, each with its three arguments (handle, header, APDU), and the outcome:
  the exception raised or the list returned.
\<close>

definition transceive ::
  "('pr, 'hd) pyscard \<Rightarrow> 'pr card_connection \<Rightarrow> int list
     \<Rightarrow> (int option \<times> 'hd \<times> int list) list \<times> (exn + int list)" where
  "transceive lib card_connection bytes =
     (if \<not> truthy (hcard card_connection)
      then ([], Inl (DESFireException (conn_str card_connection)))
      else
       (let protocol = getProtocol card_connection;
            pcscprotocolheader = translateprotocolheader lib protocol
        in
       (case py_getitem bytes 0 of
          Inl e \<Rightarrow> ([], Inl e)
        | Inr ins \<Rightarrow>
       (let payload = py_slice bytes (Some 1) None;
            apdu = [0x90, ins, 0x00, 0x00, int (length payload)] @ payload
                     @ (if length payload > 0 then [0x00] else []);
            (hresult, response) =
               SCardTransmit lib (hcard card_connection) pcscprotocolheader apdu;
            calls = [(hcard card_connection, pcscprotocolheader, apdu)]
        in
        if hresult \<noteq> 0
        then (calls, Inl (CardConnectionException
                (Failed_to_transmit (str_header lib pcscprotocolheader)
                   (SCardGetErrorMessage lib hresult))))
        else if length response < 2
        then (calls, Inl (CardConnectionException
                (Invalid_response_length (length response))))
        else
       (case py_getitem response (- 2) of
          Inl e \<Rightarrow> (calls, Inl e)
        | Inr sw1 \<Rightarrow>
        if sw1 \<noteq> 0x91
        then (calls, Inl (CardConnectionException (Unexpected_SW1 sw1)))
        else
       (case py_getitem response (- 1) of
          Inl e \<Rightarrow> (calls, Inl e)
        | Inr sw2 \<Rightarrow>
            (calls, Inr ([sw2] @ (py_slice response None (Some (- 2)))))))))))"

text \<open>
  The answer of the transmit primitive to the one call \<open>transceive\<close> makes for the
  command \<open>ins # payload\<close> on the connection \<open>conn\<close>: the result code and the raw
  response.
\<close>

definition raw_transmit ::
  "('pr, 'hd) pyscard \<Rightarrow> 'pr card_connection \<Rightarrow> int \<Rightarrow> int list \<Rightarrow> int \<times> int list" where
  "raw_transmit lib conn ins payload =
     SCardTransmit lib (hcard conn) (translateprotocolheader lib (getProtocol conn))
       ([0x90, ins, 0x00, 0x00, int (length payload)] @ payload
          @ (if length payload > 0 then [0x00] else []))"

section \<open>\<open>schemas/file_settings.py\<close>: the file-settings codec\<close>

text \<open>
  The members of \<open>DESFireFileType\<close>. \<open>FileSettings.parse\<close> names five of them; the \<open>Enum\<close>
  class itself is declared in \<open>enums.py\<close>, so any further member it may have (the
  data model lists a transaction-MAC file type) is \<open>MDFT_other\<close> with its name.
\<close>

datatype DESFireFileType =
    MDFT_STANDARD_DATA_FILE
  | MDFT_BACKUP_DATA_FILE
  | MDFT_VALUE_FILE_WITH_BACKUP
  | MDFT_LINEAR_RECORD_FILE_WITH_BACKUP
  | MDFT_CYCLIC_RECORD_FILE_WITH_BACKUP
  | MDFT_other string

text \<open>
  Modelled from the spec: \<open>DESFireCommunicationMode\<close> is declared in \<open>enums.py\<close>; its
  members are those of the data model's CommunicationMode (Plain, MAC, Encrypted).
\<close>

datatype DESFireCommunicationMode = PLAIN | MAC | ENCRYPTED

text \<open>
  What \<open>parse\<close> imports, taken as parameters:
  \<^item> \<open>DESFireFileType_of v\<close> is the call \<open>DESFireFileType(v)\<close>: the member whose value is
    \<open>v\<close>, \<open>None\<close> where the \<open>Enum\<close> call raises \<open>ValueError\<close> because no member has it;
  \<^item> \<open>DESFireCommunicationMode_of\<close> likewise;
  \<^item> \<open>FilePermissions_init\<close> is the object \<open>FilePermissions()\<close> constructs and
    \<open>FilePermissions_parse\<close> its method \<open>parse\<close>, which mutates the object: it returns
    whether it raised and the object as it leaves it.
\<close>

record 'p schemas =
  DESFireFileType_of :: "int \<Rightarrow> DESFireFileType option"
  DESFireCommunicationMode_of :: "int \<Rightarrow> DESFireCommunicationMode option"
  FilePermissions_init :: 'p
  FilePermissions_parse :: "'p \<Rightarrow> int list \<Rightarrow> (exn + unit) \<times> 'p"

text \<open>The attributes of a \<open>FileSettings\<close> object (lines 41 to 55).\<close>

record 'p FileSettings =
  encryption :: "DESFireCommunicationMode option"
  file_type :: "DESFireFileType option"
  permissions :: "'p option"
  file_size :: int
  lower_limit :: int
  upper_limit :: int
  "value" :: int
  limited_credit_value :: int
  limited_credit_enabled :: bool
  record_count :: int
  max_record_count :: int

text \<open>The object \<open>FileSettings()\<close> constructs: the defaults of \<open>__init__\<close> (lines 8 to 21).\<close>

definition FileSettings_init :: "'p FileSettings" where
  "FileSettings_init =
     \<lparr>encryption = None, file_type = None, permissions = None, file_size = 0,
      lower_limit = 0, upper_limit = 0, value = 0, limited_credit_value = 0,
      limited_credit_enabled = False, record_count = 0, max_record_count = 0\<rparr>"

text \<open>\<open>bytes(xs)\<close> for a list of integers: every element must be in \<open>range(0, 256)\<close>.\<close>

definition py_bytes :: "int list \<Rightarrow> exn + int list" where
  "py_bytes xs = (if list_all (\<lambda>x. 0 \<le> x \<and> x < 256) xs then Inr xs else Inl ValueError_bytes)"

text \<open>
  \<open>struct.unpack("<I", b)[0]\<close>: exactly four bytes, read as a little-endian unsigned
  integer.
\<close>

fun struct_unpack_I :: "int list \<Rightarrow> exn + int" where
  "struct_unpack_I [b0, b1, b2, b3] = Inr (b0 + 256 * b1 + 65536 * b2 + 16777216 * b3)"
| "struct_unpack_I xs = Inl (struct_error (length xs))"

text \<open>The expression \<open>struct.unpack("<I", bytes(xs))[0]\<close> of lines 89 to 98.\<close>

definition unpack_I :: "int list \<Rightarrow> exn + int" where
  "unpack_I xs = (case py_bytes xs of Inl e \<Rightarrow> Inl e | Inr b \<Rightarrow> struct_unpack_I b)"

text \<open>
  \<open>FileSettings.parse\<close> (lines 82 to 101). The method mutates \<open>self\<close> one attribute at
  a time and returns nothing, so the model returns the outcome (the exception raised, or
  \<open>()\<close>) together with the object as the call leaves it: a raise keeps every
  assignment made before it.
\<close>

definition parse ::
  "'p schemas \<Rightarrow> 'p FileSettings \<Rightarrow> int list \<Rightarrow> (exn + unit) \<times> 'p FileSettings" where
  "parse env self data =
     (case py_getitem data 0 of
        Inl e \<Rightarrow> (Inl e, self)
      | Inr d0 \<Rightarrow>
     (case DESFireFileType_of env d0 of
        None \<Rightarrow> (Inl (ValueError_enum ''DESFireFileType'' d0), self)
      | Some ft \<Rightarrow>
     (let self = self\<lparr>file_type := Some ft\<rparr> in
     (case py_getitem data 1 of
        Inl e \<Rightarrow> (Inl e, self)
      | Inr d1 \<Rightarrow>
     (case DESFireCommunicationMode_of env d1 of
        None \<Rightarrow> (Inl (ValueError_enum ''DESFireCommunicationMode'' d1), self)
      | Some cm \<Rightarrow>
     (let self = self\<lparr>encryption := Some cm\<rparr>;
          self = self\<lparr>permissions := Some (FilePermissions_init env)\<rparr>;
          (r, p) = FilePermissions_parse env (FilePermissions_init env)
                     (py_slice data (Some 2) (Some 4));
          self = self\<lparr>permissions := Some p\<rparr>
      in
     (case r of
        Inl e \<Rightarrow> (Inl e, self)
      | Inr u \<Rightarrow>
     (if ft = MDFT_STANDARD_DATA_FILE \<or> ft = MDFT_BACKUP_DATA_FILE then
       (case unpack_I ((py_slice data (Some 4) (Some 7)) @ [0x00]) of
          Inl e \<Rightarrow> (Inl e, self)
        | Inr v \<Rightarrow> (Inr (), self\<lparr>file_size := v\<rparr>))
      else if ft = MDFT_VALUE_FILE_WITH_BACKUP then
       (case unpack_I (py_slice data (Some 4) (Some 8)) of
          Inl e \<Rightarrow> (Inl e, self)
        | Inr v \<Rightarrow>
       (let self = self\<lparr>lower_limit := v\<rparr> in
       (case unpack_I (py_slice data (Some 8) (Some 12)) of
          Inl e \<Rightarrow> (Inl e, self)
        | Inr v \<Rightarrow>
       (let self = self\<lparr>upper_limit := v\<rparr> in
       (case unpack_I (py_slice data (Some 12) (Some 16)) of
          Inl e \<Rightarrow> (Inl e, self)
        | Inr v \<Rightarrow>
       (let self = self\<lparr>limited_credit_value := v\<rparr> in
       (case py_getitem data 16 of
          Inl e \<Rightarrow> (Inl e, self)
        | Inr d16 \<Rightarrow> (Inr (), self\<lparr>limited_credit_enabled := (d16 \<noteq> 0)\<rparr>))))))))
      else if ft = MDFT_CYCLIC_RECORD_FILE_WITH_BACKUP
              \<or> ft = MDFT_LINEAR_RECORD_FILE_WITH_BACKUP then
       (case unpack_I ((py_slice data (Some 4) (Some 7)) @ [0x00]) of
          Inl e \<Rightarrow> (Inl e, self)
        | Inr v \<Rightarrow>
       (let self = self\<lparr>file_size := v\<rparr> in
       (case unpack_I ((py_slice data (Some 7) (Some 10)) @ [0x00]) of
          Inl e \<Rightarrow> (Inl e, self)
        | Inr v \<Rightarrow>
       (let self = self\<lparr>max_record_count := v\<rparr> in
       (case unpack_I ((py_slice data (Some 10) (Some 13)) @ [0x00]) of
          Inl e \<Rightarrow> (Inl e, self)
        | Inr v \<Rightarrow> (Inr (), self\<lparr>record_count := v\<rparr>))))))
      else
       (case py_getitem data 0 of
          Inl e \<Rightarrow> (Inl e, self)
        | Inr d0 \<Rightarrow> (Inl (NotImplementedError d0), self))))))))))"

section \<open>A concrete card environment\<close>

text \<open>
  Modelled from the spec: \<open>schemas/file_permissions.py\<close> is not among the sources. The
  permission codec decodes two bytes into four 4-bit key numbers, bits 0 to 3 the change
  key, 4 to 7 the read-write key, 8 to 11 the write key and 12 to 15 the read key, and is
  total on two-byte input. Input of another length is outside its contract; here it
  raises as a subscript would. The keys of a fresh object are taken to be 0.
\<close>

record FilePermissions =
  read_key :: int
  write_key :: int
  read_write_key :: int
  change_key :: int

definition FilePermissions_new :: FilePermissions where
  "FilePermissions_new = \<lparr>read_key = 0, write_key = 0, read_write_key = 0, change_key = 0\<rparr>"

fun FilePermissions_decode ::
  "FilePermissions \<Rightarrow> int list \<Rightarrow> (exn + unit) \<times> FilePermissions" where
  "FilePermissions_decode p [b0, b1] =
     (Inr (), \<lparr>read_key = b1 div 16 mod 16, write_key = b1 mod 16,
               read_write_key = b0 div 16 mod 16, change_key = b0 mod 16\<rparr>)"
| "FilePermissions_decode p bs = (Inl IndexError, p)"

text \<open>
  Modelled from the spec: \<open>enums.py\<close> is not among the sources. The docstring of
  \<open>parse\<close> and the spec's example fix \<open>00\<close> as the code of a standard data file and
  \<open>03\<close> as a communication mode; the other codes are the DESFire file types in the
  order of the data model (backup 1, value 2, linear record 3, cyclic record 4, transaction
  MAC 5) and the communication modes plain 0, MAC 1, encrypted 3. Every general theorem
  below holds for any enum declaration; this one runs the codec on concrete buffers.
\<close>

definition file_type_codes :: "int \<Rightarrow> DESFireFileType option" where
  "file_type_codes v =
     (if v = 0x00 then Some MDFT_STANDARD_DATA_FILE
      else if v = 0x01 then Some MDFT_BACKUP_DATA_FILE
      else if v = 0x02 then Some MDFT_VALUE_FILE_WITH_BACKUP
      else if v = 0x03 then Some MDFT_LINEAR_RECORD_FILE_WITH_BACKUP
      else if v = 0x04 then Some MDFT_CYCLIC_RECORD_FILE_WITH_BACKUP
      else if v = 0x05 then Some (MDFT_other ''MDFT_TRANSACTION_MAC_FILE'')
      else None)"

definition communication_mode_codes :: "int \<Rightarrow> DESFireCommunicationMode option" where
  "communication_mode_codes v =
     (if v = 0x00 then Some PLAIN
      else if v = 0x01 then Some MAC
      else if v = 0x03 then Some ENCRYPTED
      else None)"

definition card_env :: "FilePermissions schemas" where
  "card_env =
     \<lparr>DESFireFileType_of = file_type_codes,
      DESFireCommunicationMode_of = communication_mode_codes,
      FilePermissions_init = FilePermissions_new,
      FilePermissions_parse = FilePermissions_decode\<rparr>"

text \<open>
  A reader channel for concrete runs: an open connection, and a transmit primitive that
  succeeds and answers every frame with the given response.
\<close>

definition open_conn :: "unit card_connection" where
  "open_conn = \<lparr>hcard = Some 1, getProtocol = (), conn_str = ''conn''\<rparr>"

definition answering :: "int list \<Rightarrow> (unit, unit) pyscard" where
  "answering response =
     \<lparr>translateprotocolheader = (\<lambda>_. ()),
      SCardTransmit = (\<lambda>_ _ _. (0, response)),
      SCardGetErrorMessage = (\<lambda>_. []),
      str_header = (\<lambda>_. [])\<rparr>"

section \<open>Facts about the list primitives\<close>

lemma py_getitem_0_Cons: "py_getitem (x # xs) 0 = Inr x"
  by (simp add: py_getitem_def)

lemma py_getitem_0_Nil: "py_getitem [] 0 = Inl IndexError"
  by (simp add: py_getitem_def)

lemma py_slice_from_1: "py_slice xs (Some 1) None = tl xs"
  by (cases xs) (simp_all add: py_slice_def py_bound_def)

lemma py_getitem_minus_2:
  "2 \<le> length xs \<Longrightarrow> py_getitem xs (- 2) = Inr (xs ! (length xs - 2))"
  by (simp add: py_getitem_def Let_def nat_diff_distrib')

lemma py_getitem_minus_1:
  "xs \<noteq> [] \<Longrightarrow> py_getitem xs (- 1) = Inr (last xs)"
  by (cases xs rule: rev_cases) (simp_all add: py_getitem_def Let_def)

lemma py_slice_to_minus_2:
  "py_slice xs None (Some (- 2)) = take (length xs - 2) xs"
proof -
  have "nat (int (length xs) - 2) = length xs - 2" by arith
  then show ?thesis by (simp add: py_slice_def py_bound_def Let_def)
qed

lemma py_getitem_nonneg:
  "0 \<le> i \<Longrightarrow> py_getitem xs i = (if nat i < length xs then Inr (xs ! nat i) else Inl IndexError)"
  by (auto simp add: py_getitem_def Let_def)

lemma py_slice_nonneg:
  "0 \<le> a \<Longrightarrow> 0 \<le> b \<Longrightarrow> py_slice xs (Some a) (Some b) = take (nat b - nat a) (drop (nat a) xs)"
  by (auto simp add: py_slice_def py_bound_def Let_def min_def)





lemma length_py_slice:
  "0 \<le> a \<Longrightarrow> 0 \<le> b
     \<Longrightarrow> length (py_slice xs (Some a) (Some b)) = min (length xs - nat a) (nat b - nat a)"
  by (simp add: py_slice_nonneg)

section \<open>Facts about \<open>bytes\<close> and \<open>struct.unpack\<close>\<close>

lemma struct_unpack_I_short:
  "length xs \<noteq> 4 \<Longrightarrow> struct_unpack_I xs = Inl (struct_error (length xs))"
  by (induction xs rule: struct_unpack_I.induct) simp_all

lemma unpack_I_bytes:
  "list_all (\<lambda>x. 0 \<le> x \<and> x < 256) xs \<Longrightarrow> unpack_I xs = struct_unpack_I xs"
  by (simp add: unpack_I_def py_bytes_def)

lemma unpack_I_short:
  "list_all (\<lambda>x. 0 \<le> x \<and> x < 256) xs \<Longrightarrow> length xs \<noteq> 4
     \<Longrightarrow> unpack_I xs = Inl (struct_error (length xs))"
  by (simp add: unpack_I_bytes struct_unpack_I_short)


lemma bytes_take_drop:
  "list_all (\<lambda>x. 0 \<le> x \<and> x < 256) xs \<Longrightarrow> list_all (\<lambda>x. 0 \<le> x \<and> x < (256::int)) (take n (drop i xs))"
  by (auto simp add: list_all_iff dest: in_set_takeD in_set_dropD)

lemma unpack_I_Inr: "unpack_I xs = Inr v \<Longrightarrow> length xs = 4"
proof (rule ccontr)
  assume r: "unpack_I xs = Inr v" and n: "length xs \<noteq> 4"
  from n have "struct_unpack_I xs = Inl (struct_error (length xs))"
    by (rule struct_unpack_I_short)
  with r show False
    by (simp add: unpack_I_def py_bytes_def split: if_splits)
qed

lemma unpack_I_Inl:
  assumes "list_all (\<lambda>x. 0 \<le> x \<and> x < 256) xs" and "length xs \<le> 4" and "unpack_I xs = Inl e"
  shows "\<exists>k<4. e = struct_error k"
proof (cases "length xs = 4")
  case True
  then obtain a b c d where "xs = [a, b, c, d]"
    by (auto simp add: length_Suc_conv eval_nat_numeral)
  with assms show ?thesis by (simp add: unpack_I_def py_bytes_def)
next
  case False
  with assms have "e = struct_error (length xs)" "length xs < 4"
    by (simp_all add: unpack_I_short)
  then show ?thesis by blast
qed

lemma bytes_py_slice:
  "list_all (\<lambda>x. 0 \<le> x \<and> x < 256) xs \<Longrightarrow> 0 \<le> a \<Longrightarrow> 0 \<le> b
     \<Longrightarrow> list_all (\<lambda>x. 0 \<le> x \<and> x < (256::int)) (py_slice xs (Some a) (Some b))"
  by (simp add: py_slice_nonneg bytes_take_drop)

section \<open>The transport frame\<close>

text \<open>
  C1. On an open connection, for a native command with instruction byte \<open>ins\<close> and a
  payload of \<open>n \<le> 255\<close> bytes, \<open>transceive\<close> calls the transmit primitive exactly once,
  with the frame \<open>[0x90, ins, 0x00, 0x00, n]\<close>, then the payload, then a single \<open>0x00\<close> if
  and only if \<open>n > 0\<close>; the frame has \<open>5 + n + (1 if n > 0 else 0)\<close> bytes and its length
  byte is within \<open>0..255\<close>.
\<close>

theorem transceive_frame:
  assumes "truthy (hcard conn)" and "length payload \<le> 255"
  shows "fst (transceive lib conn (ins # payload))
           = [(hcard conn, translateprotocolheader lib (getProtocol conn),
               [0x90, ins, 0x00, 0x00, int (length payload)] @ payload
                 @ (if length payload > 0 then [0x00] else []))]
         \<and> map (\<lambda>(h, hd, apdu). length apdu) (fst (transceive lib conn (ins # payload)))
           = [5 + length payload + (if length payload > 0 then 1 else 0)]
         \<and> map (\<lambda>(h, hd, apdu). take 5 apdu) (fst (transceive lib conn (ins # payload)))
           = [[0x90, ins, 0x00, 0x00, int (length payload)]]
         \<and> 0 \<le> int (length payload) \<and> int (length payload) \<le> 255"
  using assms
  by (simp add: transceive_def py_getitem_0_Cons py_slice_from_1 Let_def
           split: prod.split sum.split)

theorem transceive_frame_witness:
  "fst (transceive (answering [0x00, 0x91, 0x00]) open_conn [0xF5, 0x01])
     = [(Some 1, (), [0x90, 0xF5, 0x00, 0x00, 0x01, 0x01, 0x00])]
   \<and> fst (transceive (answering [0x91, 0x00]) open_conn [0x6A])
     = [(Some 1, (), [0x90, 0x6A, 0x00, 0x00, 0x00])]"
  using transceive_frame [of open_conn "[0x01]" "answering [0x00, 0x91, 0x00]" "0xF5"]
        transceive_frame [of open_conn "[]" "answering [0x91, 0x00]" "0x6A"]
  by (simp add: open_conn_def answering_def truthy_def)

section \<open>The transport response\<close>

text \<open>
  What \<open>transceive\<close> returns or raises on an open connection for a non-empty command, by
  the answer of the transmit primitive: the checks of lines 50 to 63 in their order.
\<close>

lemma transceive_open:
  assumes "truthy (hcard conn)" and "raw_transmit lib conn ins payload = (hresult, r)"
  shows "snd (transceive lib conn (ins # payload)) =
           (if hresult \<noteq> 0
            then Inl (CardConnectionException
                   (Failed_to_transmit
                      (str_header lib (translateprotocolheader lib (getProtocol conn)))
                      (SCardGetErrorMessage lib hresult)))
            else if length r < 2
            then Inl (CardConnectionException (Invalid_response_length (length r)))
            else if r ! (length r - 2) \<noteq> 0x91
            then Inl (CardConnectionException (Unexpected_SW1 (r ! (length r - 2))))
            else Inr ([last r] @ take (length r - 2) r))"
proof -
  have ne: "\<not> length r < 2 \<Longrightarrow> r \<noteq> []" by auto
  show ?thesis
    using assms ne
    by (simp add: transceive_def raw_transmit_def py_getitem_0_Cons py_slice_from_1 Let_def
          py_getitem_minus_2 py_getitem_minus_1 py_slice_to_minus_2)
qed

text \<open>
  C2, as the code has it. For a raw response \<open>r\<close> of at least two bytes whose
  second-to-last byte is \<open>0x91\<close>, \<open>transceive\<close> returns the last byte of \<open>r\<close> followed by
  \<open>r\<close> without its last two bytes. So a channel answering \<open>payload + [0x91, status]\<close>
  yields \<open>[status] + payload\<close>, and one echoing \<open>[status] + payload + [0x91, status]\<close>
  yields \<open>[status, status] + payload\<close>: the leading status byte of the echo is payload to
  \<open>transceive\<close>.
\<close>

theorem transceive_response:
  assumes "truthy (hcard conn)" and "raw_transmit lib conn ins payload = (0, r)"
      and "2 \<le> length r" and "r ! (length r - 2) = 0x91"
  shows "snd (transceive lib conn (ins # payload)) = Inr ([last r] @ take (length r - 2) r)
       \<and> (\<forall>p s. r = p @ [0x91, s]
             \<longrightarrow> snd (transceive lib conn (ins # payload)) = Inr ([s] @ p))
       \<and> (\<forall>p s. r = [s] @ p @ [0x91, s]
             \<longrightarrow> snd (transceive lib conn (ins # payload)) = Inr ([s, s] @ p))"
proof -
  have main: "snd (transceive lib conn (ins # payload)) = Inr ([last r] @ take (length r - 2) r)"
    using assms by (simp add: transceive_open)
  show ?thesis
    by (auto simp add: main)
qed

theorem transceive_response_witness:
  "snd (transceive (answering [0xAA, 0xBB, 0x91, 0x00]) open_conn [0xF5, 0x01])
     = Inr [0x00, 0xAA, 0xBB]"
  using transceive_response [of open_conn "answering [0xAA, 0xBB, 0x91, 0x00]" "0xF5" "[0x01]"
          "[0xAA, 0xBB, 0x91, 0x00]"]
  by (simp add: open_conn_def answering_def truthy_def raw_transmit_def)

text \<open>
  The echo of the round-trip property at \<open>status = 0x00\<close>, \<open>payload = [0xAA]\<close>: the result
  has three bytes, not the two of \<open>[status] + payload\<close>.
\<close>

theorem transceive_echo_counterexample:
  "snd (transceive (answering ([0x00] @ [0xAA] @ [0x91, 0x00])) open_conn [0xF5, 0x01])
     = Inr [0x00, 0x00, 0xAA]
   \<and> snd (transceive (answering ([0x00] @ [0xAA] @ [0x91, 0x00])) open_conn [0xF5, 0x01])
     \<noteq> Inr ([0x00] @ [0xAA])"
  by (simp add: transceive_def open_conn_def answering_def truthy_def py_getitem_def
        py_slice_def py_bound_def Let_def)

text \<open>
  C8. For a raw response of at least two bytes whose second-to-last byte \<open>b\<close> is not
  \<open>0x91\<close>, \<open>transceive\<close> raises the \<open>CardConnectionException\<close> "Unexpected SW1", which
  reports \<open>b\<close>, and returns nothing.
\<close>

theorem transceive_unexpected_sw1:
  assumes "truthy (hcard conn)" and "raw_transmit lib conn ins payload = (0, r)"
      and "2 \<le> length r" and "r ! (length r - 2) = b" and "b \<noteq> 0x91"
  shows "snd (transceive lib conn (ins # payload))
           = Inl (CardConnectionException (Unexpected_SW1 b))"
  using assms by (simp add: transceive_open)

theorem transceive_unexpected_sw1_witness:
  "snd (transceive (answering [0xAA, 0x90, 0x00]) open_conn [0xF5, 0x01])
     = Inl (CardConnectionException (Unexpected_SW1 0x90))"
  using transceive_unexpected_sw1 [of open_conn "answering [0xAA, 0x90, 0x00]" "0xF5" "[0x01]"
          "[0xAA, 0x90, 0x00]" "0x90"]
  by (simp add: open_conn_def answering_def truthy_def raw_transmit_def)

text \<open>
  C9. For a raw response of fewer than two bytes \<open>transceive\<close> raises the
  \<open>CardConnectionException\<close> "Invalid response length" and returns nothing; and every
  list \<open>transceive\<close> returns, on any input, is non-empty.
\<close>

theorem transceive_short_response:
  "(truthy (hcard conn) \<and> raw_transmit lib conn ins payload = (0, r) \<and> length r < 2
      \<longrightarrow> snd (transceive lib conn (ins # payload))
            = Inl (CardConnectionException (Invalid_response_length (length r))))
   \<and> (snd (transceive lib' conn' bytes) = Inr resp \<longrightarrow> resp \<noteq> [])"
proof -
  have "resp \<noteq> []" if "snd (transceive lib' conn' bytes) = Inr resp"
    using that
    by (auto simp add: transceive_def Let_def split: if_splits sum.splits prod.splits)
  then show ?thesis
    by (auto simp add: transceive_open)
qed

theorem transceive_short_response_witness:
  "snd (transceive (answering [0x91]) open_conn [0xF5, 0x01])
     = Inl (CardConnectionException (Invalid_response_length 1))
   \<and> snd (transceive (answering []) open_conn [0xF5, 0x01])
     = Inl (CardConnectionException (Invalid_response_length 0))
   \<and> snd (transceive (answering [0x91, 0x00]) open_conn [0xF5, 0x01]) = Inr [0x00]"
  using transceive_short_response [where conn = open_conn and lib = "answering [0x91]"
          and ins = "0xF5" and payload = "[0x01]" and r = "[0x91]"
          and lib' = "answering [0x91, 0x00]" and conn' = open_conn
          and bytes = "[0xF5, 0x01]" and resp = "[0x00]"]
        transceive_short_response [where conn = open_conn and lib = "answering []"
          and ins = "0xF5" and payload = "[0x01]" and r = "[]"
          and lib' = "answering [0x91, 0x00]" and conn' = open_conn
          and bytes = "[0xF5, 0x01]" and resp = "[0x00]"]
  by (simp add: open_conn_def answering_def truthy_def raw_transmit_def transceive_def
        py_getitem_def py_slice_def py_bound_def Let_def)

section \<open>File settings: the decoded fields\<close>





section \<open>File settings: rejected input\<close>

text \<open>
  C10. For a buffer of at least two bytes whose byte 1 is not a communication-mode code
  the decode raises \<open>ValueError\<close>: from the \<open>Enum\<close> call on byte 0 if that is no
  file-type code, otherwise from the \<open>Enum\<close> call on byte 1. Nothing after byte 1 is
  looked at: the result is that of the first two bytes alone, whatever the
  permission codec is, and no attribute but \<open>file_type\<close> is assigned.
\<close>

theorem parse_invalid_communication_mode:
  assumes "2 \<le> length data"
      and "DESFireCommunicationMode_of env (data ! 1) = None"
  shows "parse env self data =
           (case DESFireFileType_of env (data ! 0) of
              None \<Rightarrow> (Inl (ValueError_enum ''DESFireFileType'' (data ! 0)), self)
            | Some ft \<Rightarrow> (Inl (ValueError_enum ''DESFireCommunicationMode'' (data ! 1)),
                          self\<lparr>file_type := Some ft\<rparr>))
         \<and> parse env self data = parse env self (take 2 data)
         \<and> parse (env\<lparr>FilePermissions_parse := codec\<rparr>) self data = parse env self data"
proof -
  have ne: "data \<noteq> []" using assms(1) by auto
  have t0: "take 2 data ! 0 = data ! 0" and t1: "take 2 data ! 1 = data ! 1"
    using assms(1) by simp_all
  have lt: "length (take 2 data) = 2" using assms(1) by simp
  show ?thesis
    using assms ne t0 t1
    by (simp add: parse_def py_getitem_nonneg lt Let_def split: option.split)
qed

theorem parse_invalid_communication_mode_witness:
  "parse card_env FileSettings_init [0x00, 0x02, 0x00, 0x23, 0x08, 0x00, 0x00]
     = (Inl (ValueError_enum ''DESFireCommunicationMode'' 0x02),
        FileSettings_init\<lparr>file_type := Some MDFT_STANDARD_DATA_FILE\<rparr>)"
  using parse_invalid_communication_mode [of "[0x00, 0x02, 0x00, 0x23, 0x08, 0x00, 0x00]"
          card_env FileSettings_init]
  by (simp add: card_env_def file_type_codes_def communication_mode_codes_def)

text \<open>
  C4, as the code has it. A byte 0 that is the value of no member of \<open>DESFireFileType\<close>
  is rejected by the \<open>Enum\<close> call of line 82 with \<open>ValueError\<close>, which carries the byte,
  and the object is untouched. The \<open>NotImplementedError\<close> of line 101, which carries
  byte 0, is raised for a byte 0 that is the value of a member other than the five that
  \<open>parse\<close> decodes, once byte 1 is a communication-mode code and the permission bytes
  have been decoded.
\<close>

theorem parse_unsupported_file_type:
  "(data \<noteq> [] \<and> DESFireFileType_of env (data ! 0) = None
      \<longrightarrow> parse env self data = (Inl (ValueError_enum ''DESFireFileType'' (data ! 0)), self))
   \<and> (2 \<le> length data \<and> DESFireFileType_of env (data ! 0) = Some (MDFT_other name)
        \<and> DESFireCommunicationMode_of env (data ! 1) = Some cm
        \<and> FilePermissions_parse env (FilePermissions_init env)
             (py_slice data (Some 2) (Some 4)) = (Inr (), p)
      \<longrightarrow> parse env self data =
            (Inl (NotImplementedError (data ! 0)),
             self\<lparr>file_type := Some (MDFT_other name), encryption := Some cm,
                  permissions := Some p\<rparr>))"
  by (auto simp add: parse_def py_getitem_nonneg Let_def)

theorem parse_unsupported_file_type_witness:
  "parse card_env FileSettings_init [0x06, 0x00, 0x00, 0x23]
     = (Inl (ValueError_enum ''DESFireFileType'' 0x06), FileSettings_init)
   \<and> fst (parse card_env FileSettings_init [0x05, 0x00, 0x00, 0x23])
     = Inl (NotImplementedError 0x05)"
  using parse_unsupported_file_type [where data = "[0x06, 0x00, 0x00, 0x23]"
          and env = card_env and self = FileSettings_init]
        parse_unsupported_file_type [where data = "[0x05, 0x00, 0x00, 0x23]"
          and env = card_env and self = FileSettings_init
          and name = "''MDFT_TRANSACTION_MAC_FILE''" and cm = PLAIN
          and p = "snd (FilePermissions_decode FilePermissions_new [0x00, 0x23])"]
  by (simp add: card_env_def file_type_codes_def communication_mode_codes_def
        py_slice_def py_bound_def)

text \<open>
  An unassigned code in an otherwise well-formed buffer: the error is the \<open>ValueError\<close>
  of the \<open>Enum\<close> call, not \<open>NotImplementedError\<close>.
\<close>

theorem parse_unassigned_code_counterexample:
  "fst (parse card_env FileSettings_init [0xFF, 0x03, 0x00, 0x23, 0x08, 0x00, 0x00])
     = Inl (ValueError_enum ''DESFireFileType'' 0xFF)
   \<and> fst (parse card_env FileSettings_init [0xFF, 0x03, 0x00, 0x23, 0x08, 0x00, 0x00])
     \<noteq> Inl (NotImplementedError 0xFF)"
  by (simp add: parse_def card_env_def file_type_codes_def py_getitem_def Let_def)

section \<open>File settings: short buffers\<close>

text \<open>A decode that succeeds had a buffer long enough for its variant.\<close>

lemma parse_success_length:
  assumes ok: "fst (parse env self data) = Inr u"
      and ne: "data \<noteq> []"
      and ft: "DESFireFileType_of env (data ! 0) = Some ft"
  shows "(ft = MDFT_STANDARD_DATA_FILE \<or> ft = MDFT_BACKUP_DATA_FILE \<longrightarrow> 7 \<le> length data)
       \<and> (ft = MDFT_VALUE_FILE_WITH_BACKUP \<longrightarrow> 17 \<le> length data)
       \<and> (ft = MDFT_LINEAR_RECORD_FILE_WITH_BACKUP \<or> ft = MDFT_CYCLIC_RECORD_FILE_WITH_BACKUP
            \<longrightarrow> 13 \<le> length data)"
  using ok ne ft
  by (auto simp add: parse_def py_getitem_nonneg Let_def length_py_slice
           split: sum.splits option.splits prod.splits if_splits
           dest!: unpack_I_Inr)

text \<open>What a failing decode of a byte buffer with a supported file type can raise.\<close>

lemma parse_failure_kind:
  assumes bad: "fst (parse env self data) = Inl e"
      and bytes: "list_all (\<lambda>b. 0 \<le> b \<and> b < 256) data"
      and ne: "data \<noteq> []"
      and ft: "DESFireFileType_of env (data ! 0) = Some ft" "\<forall>name. ft \<noteq> MDFT_other name"
  shows "e = IndexError \<or> (\<exists>k<4. e = struct_error k)
       \<or> e = ValueError_enum ''DESFireCommunicationMode'' (data ! 1)
       \<or> fst (FilePermissions_parse env (FilePermissions_init env)
                 (py_slice data (Some 2) (Some 4))) = Inl e"
proof -
  have s3: "list_all (\<lambda>x. 0 \<le> x \<and> x < 256) (py_slice data (Some a) (Some b) @ [0x00])
            \<and> length (py_slice data (Some a) (Some b) @ [0x00]) \<le> 4"
    if "0 \<le> a" "0 \<le> b" "nat b - nat a \<le> 3" for a b
    using that bytes by (simp add: bytes_py_slice length_py_slice)
  have s4: "list_all (\<lambda>x. 0 \<le> x \<and> x < 256) (py_slice data (Some a) (Some b))
            \<and> length (py_slice data (Some a) (Some b)) \<le> 4"
    if "0 \<le> a" "0 \<le> b" "nat b - nat a \<le> 4" for a b
    using that bytes by (simp add: bytes_py_slice length_py_slice)
  have u3: "\<exists>k<4. e' = struct_error k"
    if "unpack_I (py_slice data (Some a) (Some b) @ [0x00]) = Inl e'"
       "0 \<le> a" "0 \<le> b" "nat b - nat a \<le> 3" for a b e'
    using unpack_I_Inl [OF _ _ that(1)] s3 [OF that(2-4)] by blast
  have u4: "\<exists>k<4. e' = struct_error k"
    if "unpack_I (py_slice data (Some a) (Some b)) = Inl e'"
       "0 \<le> a" "0 \<le> b" "nat b - nat a \<le> 4" for a b e'
    using unpack_I_Inl [OF _ _ that(1)] s4 [OF that(2-4)] by blast
  show ?thesis
    using bad ne ft
    by (cases ft)
       (auto simp add: parse_def py_getitem_nonneg Let_def
             split: sum.splits option.splits prod.splits if_splits
             dest: u3 u4)
qed

text \<open>
  C3, as the code has it. \<open>parse\<close> has no length check. A byte buffer shorter than its
  variant needs (7 bytes for a data file, 17 for a value file, 13 for a record file) still
  never decodes: the failure is the exception of the first access that comes out short,
  an \<open>IndexError\<close> from a subscript (\<open>data[1]\<close>, \<open>data[16]\<close>), a \<open>struct.error\<close> from
  unpacking a slice of fewer than four bytes, or, when the header itself is at fault, the
  \<open>ValueError\<close> of an invalid communication mode or whatever the permission codec
  raises.
\<close>

theorem parse_short_buffer:
  assumes bytes: "list_all (\<lambda>b. 0 \<le> b \<and> b < 256) data"
      and ne: "data \<noteq> []"
      and ft: "DESFireFileType_of env (data ! 0) = Some ft"
      and short: "(ft = MDFT_STANDARD_DATA_FILE \<or> ft = MDFT_BACKUP_DATA_FILE) \<and> length data < 7
                \<or> ft = MDFT_VALUE_FILE_WITH_BACKUP \<and> length data < 17
                \<or> (ft = MDFT_LINEAR_RECORD_FILE_WITH_BACKUP
                     \<or> ft = MDFT_CYCLIC_RECORD_FILE_WITH_BACKUP) \<and> length data < 13"
  shows "\<exists>e. fst (parse env self data) = Inl e
            \<and> (e = IndexError \<or> (\<exists>k<4. e = struct_error k)
               \<or> e = ValueError_enum ''DESFireCommunicationMode'' (data ! 1)
               \<or> fst (FilePermissions_parse env (FilePermissions_init env)
                         (py_slice data (Some 2) (Some 4))) = Inl e)"
proof (cases "fst (parse env self data)")
  case (Inl e)
  have "\<forall>name. ft \<noteq> MDFT_other name" using short by auto
  with Inl bytes ne ft show ?thesis
    using parse_failure_kind [of env self data e ft] by blast
next
  case (Inr u)
  from parse_success_length [OF Inr ne ft] short show ?thesis by auto
qed

theorem parse_short_buffer_witness:
  "\<exists>e. fst (parse card_env FileSettings_init [0x04, 0x00, 0x00, 0x23, 0x10, 0x00, 0x00, 0x05])
           = Inl e
      \<and> (e = IndexError \<or> (\<exists>k<4. e = struct_error k)
          \<or> e = ValueError_enum ''DESFireCommunicationMode'' 0x00
          \<or> fst (FilePermissions_decode FilePermissions_new [0x00, 0x23]) = Inl e)"
  using parse_short_buffer [of "[0x04, 0x00, 0x00, 0x23, 0x10, 0x00, 0x00, 0x05]" card_env
          MDFT_CYCLIC_RECORD_FILE_WITH_BACKUP FileSettings_init]
  by (simp add: card_env_def file_type_codes_def py_slice_def py_bound_def)

text \<open>
  A standard data file cut to 6 bytes fails in \<open>struct.unpack\<close>, on a buffer of 3 bytes;
  cut to 1 byte it fails in the subscript \<open>data[1]\<close>.
\<close>

theorem parse_short_buffer_counterexample:
  "fst (parse card_env FileSettings_init [0x00, 0x03, 0x00, 0x23, 0x08, 0x00])
     = Inl (struct_error 3)
   \<and> fst (parse card_env FileSettings_init [0x00]) = Inl IndexError"
  by (simp add: parse_def card_env_def file_type_codes_def communication_mode_codes_def
        py_getitem_def py_slice_def py_bound_def unpack_I_def py_bytes_def Let_def)

section \<open>File settings: the object after a failed decode\<close>





end
